theory Spec2Isabelle
  imports Main
begin

section \<open>Resource objects\<close>

text \<open>
  Modelled from the spec: the resource object model (package \<open>api\<close>) is an external
  collaborator of \<open>pkg/kubectl/resource_printer.go\<close>. Each record keeps the fields
  that the printer reads, under the names the printer uses. A pointer to a struct is
  modelled by the struct; the printer is never handed a nil pointer here.
\<close>

type_synonym labelset = "string \<rightharpoonup> string"

record ObjectMeta =
  Name :: string
  Labels :: labelset

record ObjectReference =
  Kind :: string
  Name :: string

record Container =
  Image :: string

record PodSpec =
  Containers :: "Container list"

record ContainerManifest =
  Version :: string
  Containers :: "Container list"

record PodState =
  Manifest :: ContainerManifest
  Status :: string
  Host :: string
  HostIP :: string

record Pod = ObjectMeta +
  DesiredState :: PodState
  CurrentState :: PodState

record PodList =
  Items :: "Pod list"

record PodTemplateSpec =
  Spec :: PodSpec

record ReplicationControllerSpec =
  Replicas :: int
  Selector :: labelset
  Template :: PodTemplateSpec

record ReplicationController = ObjectMeta +
  Spec :: ReplicationControllerSpec

record ReplicationControllerList =
  Items :: "ReplicationController list"

record ServiceSpec =
  Port :: int
  Selector :: labelset
  PortalIP :: string

record Service = ObjectMeta +
  Spec :: ServiceSpec

record ServiceList =
  Items :: "Service list"

record Minion = ObjectMeta +
  HostIP :: string

record MinionList =
  Items :: "Minion list"

record Status =
  Status :: string

record Event = ObjectMeta +
  InvolvedObject :: ObjectReference
  Status :: string
  Reason :: string
  Message :: string

record EventList =
  Items :: "Event list"

subsection \<open>Runtime type identities (\<open>reflect.Type\<close>)\<close>

datatype rtype =
    TBasic string
  | TStruct string
  | TInterface string
  | TPtr rtype
  | TSlice rtype
  | TFunc "rtype list" "rtype list"

text \<open>
  A \<open>runtime.Object\<close> is an interface value: nil, a pointer to one of the resource
  structs, or a value of some other dynamic type, of which only the type identity and
  an opaque rendering are kept.
\<close>

datatype Object =
    NilObject
  | PodObj Pod
  | PodListObj PodList
  | ReplicationControllerObj ReplicationController
  | ReplicationControllerListObj ReplicationControllerList
  | ServiceObj Service
  | ServiceListObj ServiceList
  | MinionObj Minion
  | MinionListObj MinionList
  | StatusObj Status
  | EventObj Event
  | EventListObj EventList
  | OtherObj rtype string

text \<open>\<open>reflect.TypeOf(obj)\<close>: the nil \<open>reflect.Type\<close> is \<open>None\<close>.\<close>

fun TypeOf :: "Object \<Rightarrow> rtype option" where
  "TypeOf NilObject = None"
| "TypeOf (PodObj _) = Some (TPtr (TStruct ''api.Pod''))"
| "TypeOf (PodListObj _) = Some (TPtr (TStruct ''api.PodList''))"
| "TypeOf (ReplicationControllerObj _) = Some (TPtr (TStruct ''api.ReplicationController''))"
| "TypeOf (ReplicationControllerListObj _) =
     Some (TPtr (TStruct ''api.ReplicationControllerList''))"
| "TypeOf (ServiceObj _) = Some (TPtr (TStruct ''api.Service''))"
| "TypeOf (ServiceListObj _) = Some (TPtr (TStruct ''api.ServiceList''))"
| "TypeOf (MinionObj _) = Some (TPtr (TStruct ''api.Minion''))"
| "TypeOf (MinionListObj _) = Some (TPtr (TStruct ''api.MinionList''))"
| "TypeOf (StatusObj _) = Some (TPtr (TStruct ''api.Status''))"
| "TypeOf (EventObj _) = Some (TPtr (TStruct ''api.Event''))"
| "TypeOf (EventListObj _) = Some (TPtr (TStruct ''api.EventList''))"
| "TypeOf (OtherObj t _) = Some t"

section \<open>Errors and writers\<close>

text \<open>
  Every \<open>fmt.Errorf\<close> call of the file is one constructor, carrying the arguments of its
  format string. \<open>ExternalError\<close> is an error made by a collaborator (a writer, the
  encoder, the template parser, the file system). A run-time panic of a reflective call
  is the value \<open>RuntimePanic\<close>.
\<close>

datatype goerror =
    ExternalError string
  | NoTemplateGiven
  | NoTemplateFileGiven
  | ErrorParsingTemplate string goerror
  | ErrorReadingTemplate string goerror
  | FormatNotRecognized string
  | NotAFunction
  | WrongArity
  | WrongSignature rtype
  | UnknownType Object
  | RuntimePanic string

text \<open>
  An \<open>io.Writer\<close> is an object: a state and its \<open>Write\<close> method, which returns the
  state after the call and the error (the byte count is never read by the printers).
\<close>

record 'w Writer =
  Write :: "'w \<Rightarrow> string \<Rightarrow> 'w \<times> goerror option"
  st :: 'w

text \<open>
  \<open>fmt.Fprintf(w, format, args...)\<close> formats into a buffer and hands it to \<open>w.Write\<close> in
  one call; the formatted text is the argument here.
\<close>

definition Fprintf :: "'w Writer \<Rightarrow> string \<Rightarrow> 'w Writer \<times> goerror option" where
  "Fprintf w s = (case Write w (st w) s of (s', err) \<Rightarrow> (w\<lparr>st := s'\<rparr>, err))"

definition TAB :: char where
  "TAB = CHR 0x09"

definition NL :: char where
  "NL = CHR 0x0A"

text \<open>\<open>strings.Join\<close>.\<close>

fun Join :: "string list \<Rightarrow> string \<Rightarrow> string" where
  "Join [] sep = []"
| "Join [x] sep = x"
| "Join (x # y # ys) sep = x @ sep @ Join (y # ys) sep"

text \<open>The verb \<open>%d\<close> on an \<open>int\<close>.\<close>

definition digit :: "nat \<Rightarrow> char" where
  "digit n = ''0123456789'' ! n"

fun natstr :: "nat \<Rightarrow> string" where
  "natstr n = (if n < 10 then [digit n] else natstr (n div 10) @ [digit (n mod 10)])"

declare natstr.simps [simp del]

definition itoa :: "int \<Rightarrow> string" where
  "itoa i = (if i < 0 then CHR ''-'' # natstr (nat (- i)) else natstr (nat i))"

section \<open>Collaborators\<close>

text \<open>
  Code that the printer calls and that is not part of \<open>resource_printer.go\<close> is a
  parameter of the model, so that every theorem holds for every behaviour of it.

  \<^item> \<open>Convert\<close> is \<open>api.Scheme.Convert(&manifest, spec)\<close>: it is handed the destination
    as it is before the call and returns the destination as it leaves it, with its error.
  \<^item> \<open>makeImageList\<close> is the helper of that name in package \<open>kubectl\<close>.
  \<^item> \<open>SetString\<close> is what the verb \<open>%s\<close> prints for a \<open>labels.Set\<close>.
\<close>

record collab =
  Convert :: "ContainerManifest \<Rightarrow> PodSpec \<Rightarrow> PodSpec \<times> goerror option"
  makeImageList :: "PodSpec \<Rightarrow> string"
  SetString :: "labelset \<Rightarrow> string"

text \<open>
  \<open>InterfacesFor\<close> is \<open>latest.InterfacesFor(version)\<close>; of the interfaces it returns only
  \<open>Codec.Encode\<close> is used, so a successful lookup is that function. \<open>Indent\<close> is
  \<open>json.Indent(&dst, src, prefix, indent)\<close>: it is handed the buffer's content and returns
  the content after the call, with its error.
\<close>

record encoding =
  InterfacesFor :: "string \<Rightarrow> goerror + (Object \<Rightarrow> goerror + string)"
  Indent :: "string \<Rightarrow> string \<Rightarrow> string \<Rightarrow> string \<Rightarrow> string \<times> goerror option"

text \<open>
  \<open>Parse\<close> is \<open>template.New("output").Parse(text)\<close> and \<open>ReadFile\<close> is
  \<open>ioutil.ReadFile(path)\<close> on the file system of the call.
\<close>

record 'tmpl templating =
  Parse :: "string \<Rightarrow> goerror + 'tmpl"
  ReadFile :: "string \<Rightarrow> goerror + string"

text \<open>
  \<open>text/tabwriter\<close>: \<open>NewWriter(output, minwidth, tabwidth, padding, padchar, flags)\<close>
  wraps the output writer, \<open>twWrite\<close> is the \<open>Write\<close> method of the wrapper, and \<open>Flush\<close>
  returns the output writer as the flush leaves it, with the error of the flush.
\<close>

record ('t, 'o) tabwriter =
  NewWriter :: "'o Writer \<Rightarrow> nat \<Rightarrow> nat \<Rightarrow> nat \<Rightarrow> char \<Rightarrow> nat \<Rightarrow> 't"
  twWrite :: "'t \<Rightarrow> string \<Rightarrow> 't \<times> goerror option"
  Flush :: "'t \<Rightarrow> 'o Writer \<times> goerror option"

section \<open>The versioned printers\<close>

record JSONPrinter =
  version :: string

record YAMLPrinter =
  version :: string

record 'tmpl TemplatePrinter =
  version :: string
  template :: 'tmpl

definition NewTemplatePrinter ::
  "'tmpl templating \<Rightarrow> string \<Rightarrow> string \<Rightarrow> goerror + 'tmpl TemplatePrinter" where
  "NewTemplatePrinter S ver tmpl =
     (case Parse S tmpl of
        Inl err \<Rightarrow> Inl err
      | Inr t \<Rightarrow> Inr \<lparr>TemplatePrinter.version = ver, template = t\<rparr>)"

section \<open>The JSON printer\<close>

text \<open>
  The error of \<open>json.Indent\<close> is assigned to \<open>err\<close> and \<open>err\<close> is assigned again by the
  \<open>Write\<close> call before it is read.
\<close>

definition JSONPrinter_PrintObj ::
  "encoding \<Rightarrow> JSONPrinter \<Rightarrow> Object \<Rightarrow> 'w Writer \<Rightarrow> 'w Writer \<times> goerror option" where
  "JSONPrinter_PrintObj E j obj w =
     (case InterfacesFor E (JSONPrinter.version j) of
        Inl err \<Rightarrow> (w, Some err)
      | Inr Encode \<Rightarrow>
          (case Encode obj of
             Inl err \<Rightarrow> (w, Some err)
           | Inr data \<Rightarrow>
               (let dst = [];
                    (dst, err) = Indent E dst data [] ''    '';
                    dst = dst @ [NL];
                    (s', err) = Write w (st w) dst
                in (w\<lparr>st := s'\<rparr>, err))))"

section \<open>Default render functions\<close>

definition podHostString :: "string \<Rightarrow> string \<Rightarrow> string" where
  "podHostString host ip =
     (if host = [] \<and> ip = [] then ''<unassigned>'' else host @ ''/'' @ ip)"

text \<open>
  The text that the \<open>Fprintf\<close> call of \<open>printPod\<close> formats, and \<open>printPod\<close>: the
  conversion error is logged (\<open>glog.Errorf\<close>) and not returned.
\<close>

definition podRow :: "collab \<Rightarrow> Pod \<Rightarrow> PodSpec \<Rightarrow> string" where
  "podRow C pod spec =
     ObjectMeta.Name pod @ [TAB] @ makeImageList C spec @ [TAB] @
     podHostString (Host (CurrentState pod)) (PodState.HostIP (CurrentState pod)) @ [TAB] @
     SetString C (Labels pod) @ [TAB] @ PodState.Status (CurrentState pod) @ [NL]"

definition printPod :: "collab \<Rightarrow> Pod \<Rightarrow> 'w Writer \<Rightarrow> 'w Writer \<times> goerror option" where
  "printPod C pod w =
     (let spec = \<lparr>PodSpec.Containers = []\<rparr>;
          (spec, err) = Convert C (Manifest (DesiredState pod)) spec
      in Fprintf w (podRow C pod spec))"

fun printPodList_range :: "collab \<Rightarrow> Pod list \<Rightarrow> 'w Writer \<Rightarrow> 'w Writer \<times> goerror option" where
  "printPodList_range C [] w = (w, None)"
| "printPodList_range C (pod # rest) w =
     (case printPod C pod w of
        (w', Some err) \<Rightarrow> (w', Some err)
      | (w', None) \<Rightarrow> printPodList_range C rest w')"

definition printPodList :: "collab \<Rightarrow> PodList \<Rightarrow> 'w Writer \<Rightarrow> 'w Writer \<times> goerror option" where
  "printPodList C podList w = printPodList_range C (PodList.Items podList) w"

definition printReplicationController ::
  "collab \<Rightarrow> ReplicationController \<Rightarrow> 'w Writer \<Rightarrow> 'w Writer \<times> goerror option" where
  "printReplicationController C controller w =
     Fprintf w
       (ObjectMeta.Name controller @ [TAB] @
        makeImageList C (PodTemplateSpec.Spec (Template (ReplicationController.Spec controller))) @
        [TAB] @
        SetString C (ReplicationControllerSpec.Selector (ReplicationController.Spec controller)) @
        [TAB] @ itoa (Replicas (ReplicationController.Spec controller)) @ [NL])"

fun printReplicationControllerList_range ::
  "collab \<Rightarrow> ReplicationController list \<Rightarrow> 'w Writer \<Rightarrow> 'w Writer \<times> goerror option" where
  "printReplicationControllerList_range C [] w = (w, None)"
| "printReplicationControllerList_range C (controller # rest) w =
     (case printReplicationController C controller w of
        (w', Some err) \<Rightarrow> (w', Some err)
      | (w', None) \<Rightarrow> printReplicationControllerList_range C rest w')"

definition printReplicationControllerList ::
  "collab \<Rightarrow> ReplicationControllerList \<Rightarrow> 'w Writer \<Rightarrow> 'w Writer \<times> goerror option" where
  "printReplicationControllerList C list w =
     printReplicationControllerList_range C (ReplicationControllerList.Items list) w"

text \<open>The text that the \<open>Fprintf\<close> call of \<open>printService\<close> formats.\<close>

definition serviceRow :: "collab \<Rightarrow> Service \<Rightarrow> string" where
  "serviceRow C svc =
     ObjectMeta.Name svc @ [TAB] @ SetString C (Labels svc) @ [TAB] @
     SetString C (ServiceSpec.Selector (Service.Spec svc)) @ [TAB] @
     PortalIP (Service.Spec svc) @ [TAB] @ itoa (Port (Service.Spec svc)) @ [NL]"

definition printService :: "collab \<Rightarrow> Service \<Rightarrow> 'w Writer \<Rightarrow> 'w Writer \<times> goerror option" where
  "printService C svc w = Fprintf w (serviceRow C svc)"

fun printServiceList_range ::
  "collab \<Rightarrow> Service list \<Rightarrow> 'w Writer \<Rightarrow> 'w Writer \<times> goerror option" where
  "printServiceList_range C [] w = (w, None)"
| "printServiceList_range C (svc # rest) w =
     (case printService C svc w of
        (w', Some err) \<Rightarrow> (w', Some err)
      | (w', None) \<Rightarrow> printServiceList_range C rest w')"

definition printServiceList ::
  "collab \<Rightarrow> ServiceList \<Rightarrow> 'w Writer \<Rightarrow> 'w Writer \<times> goerror option" where
  "printServiceList C list w = printServiceList_range C (ServiceList.Items list) w"

definition printMinion :: "Minion \<Rightarrow> 'w Writer \<Rightarrow> 'w Writer \<times> goerror option" where
  "printMinion minion w = Fprintf w (ObjectMeta.Name minion @ [NL])"

fun printMinionList_range :: "Minion list \<Rightarrow> 'w Writer \<Rightarrow> 'w Writer \<times> goerror option" where
  "printMinionList_range [] w = (w, None)"
| "printMinionList_range (minion # rest) w =
     (case printMinion minion w of
        (w', Some err) \<Rightarrow> (w', Some err)
      | (w', None) \<Rightarrow> printMinionList_range rest w')"

definition printMinionList :: "MinionList \<Rightarrow> 'w Writer \<Rightarrow> 'w Writer \<times> goerror option" where
  "printMinionList list w = printMinionList_range (MinionList.Items list) w"

definition printStatus :: "Status \<Rightarrow> 'w Writer \<Rightarrow> 'w Writer \<times> goerror option" where
  "printStatus status w = Fprintf w (Status.Status status @ [NL])"

definition printEvent :: "Event \<Rightarrow> 'w Writer \<Rightarrow> 'w Writer \<times> goerror option" where
  "printEvent event w =
     Fprintf w
       (ObjectReference.Name (InvolvedObject event) @ [TAB] @ Kind (InvolvedObject event) @ [TAB] @
        Event.Status event @ [TAB] @ Reason event @ [TAB] @ Message event @ [NL])"

fun printEventList_range :: "Event list \<Rightarrow> 'w Writer \<Rightarrow> 'w Writer \<times> goerror option" where
  "printEventList_range [] w = (w, None)"
| "printEventList_range (event # rest) w =
     (case printEvent event w of
        (w', Some err) \<Rightarrow> (w', Some err)
      | (w', None) \<Rightarrow> printEventList_range rest w')"

definition printEventList :: "EventList \<Rightarrow> 'w Writer \<Rightarrow> 'w Writer \<times> goerror option" where
  "printEventList list w = printEventList_range (EventList.Items list) w"

section \<open>The human-readable printer\<close>

subsection \<open>Function values under reflection\<close>

text \<open>
  A render function receives the object and the writer and returns the writer as it
  leaves it, with its error result.
\<close>

type_synonym 'w printFn = "Object \<Rightarrow> 'w Writer \<Rightarrow> 'w Writer \<times> goerror option"

text \<open>
  \<open>reflect.ValueOf(x)\<close>: the zero \<open>Value\<close> for a nil interface, otherwise the dynamic type
  of \<open>x\<close> and, when \<open>x\<close> is a function that can be called, what a call of it does. A nil
  function value has a function type and nothing to call.
\<close>

datatype 'w Value =
    ZeroValue
  | Val rtype "'w printFn option"

definition io_Writer :: rtype where
  "io_Writer = TInterface ''io.Writer''"

definition error_type :: rtype where
  "error_type = TInterface ''error''"

text \<open>
  The methods of \<open>reflect.Type\<close> that the printer calls. On a type that is not a function
  type Go panics in each of them; the printer calls them on function types only.
\<close>

fun isFunc :: "rtype \<Rightarrow> bool" where
  "isFunc (TFunc ins outs) = True"
| "isFunc _ = False"

fun NumIn :: "rtype \<Rightarrow> nat" where
  "NumIn (TFunc ins outs) = length ins"
| "NumIn _ = 0"

fun NumOut :: "rtype \<Rightarrow> nat" where
  "NumOut (TFunc ins outs) = length outs"
| "NumOut _ = 0"

fun In :: "rtype \<Rightarrow> nat \<Rightarrow> rtype" where
  "In (TFunc ins outs) i = ins ! i"
| "In t i = t"

fun Out :: "rtype \<Rightarrow> nat \<Rightarrow> rtype" where
  "Out (TFunc ins outs) i = outs ! i"
| "Out t i = t"

text \<open>
  \<open>handler.printFunc.Call(args)[0]\<close>, read as an error: the call of a value with nothing
  to call panics.
\<close>

fun Call :: "'w Value \<Rightarrow> 'w printFn" where
  "Call (Val t (Some body)) obj w = body obj w"
| "Call _ obj w = (w, Some (RuntimePanic ''reflect: call of a value that cannot be called''))"

subsection \<open>The registry\<close>

record 'w handlerEntry =
  columns :: "string list"
  printFunc :: "'w Value"

record 'w HumanReadablePrinter =
  handlerMap :: "rtype option \<rightharpoonup> 'w handlerEntry"
  noHeaders :: bool
  lastType :: "rtype option"

fun validatePrintHandlerFunc :: "'w Value \<Rightarrow> goerror option" where
  "validatePrintHandlerFunc ZeroValue = Some NotAFunction"
| "validatePrintHandlerFunc (Val funcType body) =
     (if \<not> isFunc funcType then Some NotAFunction
      else if NumIn funcType \<noteq> 2 \<or> NumOut funcType \<noteq> 1 then Some WrongArity
      else if In funcType 1 \<noteq> io_Writer \<or> Out funcType 0 \<noteq> error_type
        then Some (WrongSignature (In funcType 0))
      else None)"

text \<open>
  The failure is logged (\<open>glog.Errorf\<close>) and returned. The map is the one that
  \<open>NewHumanReadablePrinter\<close> allocates.
\<close>

definition Handler ::
  "'w HumanReadablePrinter \<Rightarrow> string list \<Rightarrow> 'w Value \<Rightarrow>
     'w HumanReadablePrinter \<times> goerror option" where
  "Handler h cols printFuncValue =
     (case validatePrintHandlerFunc printFuncValue of
        Some err \<Rightarrow> (h, Some err)
      | None \<Rightarrow>
          (case printFuncValue of
             ZeroValue \<Rightarrow> (h, Some (RuntimePanic ''reflect: Type of the zero Value''))
           | Val funcType body \<Rightarrow>
               (let objType = In funcType 0
                in (h\<lparr>handlerMap := (handlerMap h)
                        (Some objType \<mapsto> \<lparr>columns = cols, printFunc = printFuncValue\<rparr>)\<rparr>,
                    None))))"

definition podColumns :: "string list" where
  "podColumns = [''NAME'', ''IMAGE(S)'', ''HOST'', ''LABELS'', ''STATUS'']"

definition replicationControllerColumns :: "string list" where
  "replicationControllerColumns = [''NAME'', ''IMAGE(S)'', ''SELECTOR'', ''REPLICAS'']"

definition serviceColumns :: "string list" where
  "serviceColumns = [''NAME'', ''LABELS'', ''SELECTOR'', ''IP'', ''PORT'']"

definition minionColumns :: "string list" where
  "minionColumns = [''NAME'']"

definition statusColumns :: "string list" where
  "statusColumns = [''STATUS'']"

definition eventColumns :: "string list" where
  "eventColumns = [''NAME'', ''KIND'', ''STATUS'', ''REASON'', ''MESSAGE'']"

text \<open>
  The default render functions as \<open>reflect\<close> sees them: the function type, and the call,
  which panics on an argument that is not of the parameter's type.
\<close>

definition handlerValue :: "string \<Rightarrow> 'w printFn \<Rightarrow> 'w Value" where
  "handlerValue structName body =
     Val (TFunc [TPtr (TStruct structName), io_Writer] [error_type]) (Some body)"

definition mismatch :: "'w Writer \<Rightarrow> 'w Writer \<times> goerror option" where
  "mismatch w = (w, Some (RuntimePanic ''reflect: Call using a value of another type''))"

definition printPod_Value :: "collab \<Rightarrow> 'w Value" where
  "printPod_Value C =
     handlerValue ''api.Pod'' (\<lambda>obj w. case obj of PodObj x \<Rightarrow> printPod C x w | _ \<Rightarrow> mismatch w)"

definition printPodList_Value :: "collab \<Rightarrow> 'w Value" where
  "printPodList_Value C =
     handlerValue ''api.PodList''
       (\<lambda>obj w. case obj of PodListObj x \<Rightarrow> printPodList C x w | _ \<Rightarrow> mismatch w)"

definition printReplicationController_Value :: "collab \<Rightarrow> 'w Value" where
  "printReplicationController_Value C =
     handlerValue ''api.ReplicationController''
       (\<lambda>obj w. case obj of
          ReplicationControllerObj x \<Rightarrow> printReplicationController C x w | _ \<Rightarrow> mismatch w)"

definition printReplicationControllerList_Value :: "collab \<Rightarrow> 'w Value" where
  "printReplicationControllerList_Value C =
     handlerValue ''api.ReplicationControllerList''
       (\<lambda>obj w. case obj of
          ReplicationControllerListObj x \<Rightarrow> printReplicationControllerList C x w
        | _ \<Rightarrow> mismatch w)"

definition printService_Value :: "collab \<Rightarrow> 'w Value" where
  "printService_Value C =
     handlerValue ''api.Service''
       (\<lambda>obj w. case obj of ServiceObj x \<Rightarrow> printService C x w | _ \<Rightarrow> mismatch w)"

definition printServiceList_Value :: "collab \<Rightarrow> 'w Value" where
  "printServiceList_Value C =
     handlerValue ''api.ServiceList''
       (\<lambda>obj w. case obj of ServiceListObj x \<Rightarrow> printServiceList C x w | _ \<Rightarrow> mismatch w)"

definition printMinion_Value :: "'w Value" where
  "printMinion_Value =
     handlerValue ''api.Minion'' (\<lambda>obj w. case obj of MinionObj x \<Rightarrow> printMinion x w | _ \<Rightarrow> mismatch w)"

definition printMinionList_Value :: "'w Value" where
  "printMinionList_Value =
     handlerValue ''api.MinionList''
       (\<lambda>obj w. case obj of MinionListObj x \<Rightarrow> printMinionList x w | _ \<Rightarrow> mismatch w)"

definition printStatus_Value :: "'w Value" where
  "printStatus_Value =
     handlerValue ''api.Status'' (\<lambda>obj w. case obj of StatusObj x \<Rightarrow> printStatus x w | _ \<Rightarrow> mismatch w)"

definition printEvent_Value :: "'w Value" where
  "printEvent_Value =
     handlerValue ''api.Event'' (\<lambda>obj w. case obj of EventObj x \<Rightarrow> printEvent x w | _ \<Rightarrow> mismatch w)"

definition printEventList_Value :: "'w Value" where
  "printEventList_Value =
     handlerValue ''api.EventList''
       (\<lambda>obj w. case obj of EventListObj x \<Rightarrow> printEventList x w | _ \<Rightarrow> mismatch w)"

text \<open>Each call's error result is dropped, as in the source.\<close>

definition addDefaultHandlers ::
  "collab \<Rightarrow> 'w HumanReadablePrinter \<Rightarrow> 'w HumanReadablePrinter" where
  "addDefaultHandlers C h =
     (let h = fst (Handler h podColumns (printPod_Value C));
          h = fst (Handler h podColumns (printPodList_Value C));
          h = fst (Handler h replicationControllerColumns (printReplicationController_Value C));
          h = fst (Handler h replicationControllerColumns
                     (printReplicationControllerList_Value C));
          h = fst (Handler h serviceColumns (printService_Value C));
          h = fst (Handler h serviceColumns (printServiceList_Value C));
          h = fst (Handler h minionColumns printMinion_Value);
          h = fst (Handler h minionColumns printMinionList_Value);
          h = fst (Handler h statusColumns printStatus_Value);
          h = fst (Handler h eventColumns printEvent_Value);
          h = fst (Handler h eventColumns printEventList_Value)
      in h)"

definition NewHumanReadablePrinter :: "collab \<Rightarrow> bool \<Rightarrow> 'w HumanReadablePrinter" where
  "NewHumanReadablePrinter C nh =
     addDefaultHandlers C \<lparr>handlerMap = Map.empty, noHeaders = nh, lastType = None\<rparr>"

subsection \<open>Printing\<close>

definition printHeader :: "string list \<Rightarrow> 'w Writer \<Rightarrow> 'w Writer \<times> goerror option" where
  "printHeader columnNames w =
     (case Fprintf w (Join columnNames [TAB] @ [NL]) of
        (w', Some err) \<Rightarrow> (w', Some err)
      | (w', None) \<Rightarrow> (w', None))"

text \<open>
  \<open>PrintObj\<close> returns the printer and the output writer as the call leaves them, and the
  error. The deferred \<open>w.Flush()\<close> runs on every path, and its error is dropped. The
  error of \<open>printHeader\<close> is dropped as well.
\<close>

definition PrintObj ::
  "('t, 'o) tabwriter \<Rightarrow> 't HumanReadablePrinter \<Rightarrow> Object \<Rightarrow> 'o Writer \<Rightarrow>
     't HumanReadablePrinter \<times> 'o Writer \<times> goerror option" where
  "PrintObj T h obj output =
     (let w = \<lparr>Write = twWrite T, st = NewWriter T output 20 5 3 CHR '' '' 0\<rparr>;
          t = TypeOf obj
      in case handlerMap h t of
           Some handler \<Rightarrow>
             (let (w, h) =
                    (if \<not> noHeaders h \<and> t \<noteq> lastType h
                     then (fst (printHeader (columns handler) w), h\<lparr>lastType := t\<rparr>)
                     else (w, h));
                  (w, resultValue) = Call (printFunc handler) obj w
              in (h, fst (Flush T (st w)), resultValue))
         | None \<Rightarrow> (h, fst (Flush T (st w)), Some (UnknownType obj)))"

section \<open>GetPrinter\<close>

text \<open>
  A \<open>ResourcePrinter\<close> interface value: nil, or one of the four printers of the file.
\<close>

datatype ('tmpl, 'w) ResourcePrinter =
    NilPrinter
  | JSON JSONPrinter
  | YAML YAMLPrinter
  | Template "'tmpl TemplatePrinter"
  | HumanReadable "'w HumanReadablePrinter"

text \<open>The result \<open>(nil, err)\<close> is \<open>Inl err\<close> and the result \<open>(printer, nil)\<close> is \<open>Inr printer\<close>.\<close>

definition GetPrinter ::
  "'tmpl templating \<Rightarrow> string \<Rightarrow> string \<Rightarrow> string \<Rightarrow> ('tmpl, 'w) ResourcePrinter \<Rightarrow>
     goerror + ('tmpl, 'w) ResourcePrinter" where
  "GetPrinter S ver format templateFile defaultPrinter =
     (if format = ''json'' then Inr (JSON \<lparr>JSONPrinter.version = ver\<rparr>)
      else if format = ''yaml'' then Inr (YAML \<lparr>YAMLPrinter.version = ver\<rparr>)
      else if format = ''template'' then
        (if length templateFile = 0 then Inl NoTemplateGiven
         else case NewTemplatePrinter S ver templateFile of
                Inl err \<Rightarrow> Inl (ErrorParsingTemplate templateFile err)
              | Inr printer \<Rightarrow> Inr (Template printer))
      else if format = ''templatefile'' then
        (if length templateFile = 0 then Inl NoTemplateFileGiven
         else case ReadFile S templateFile of
                Inl err \<Rightarrow> Inl (ErrorReadingTemplate templateFile err)
              | Inr data \<Rightarrow>
                  (case NewTemplatePrinter S ver data of
                     Inl err \<Rightarrow> Inl (ErrorParsingTemplate data err)
                   | Inr printer \<Rightarrow> Inr (Template printer)))
      else if format = [] then Inr defaultPrinter
      else Inl (FormatNotRecognized format))"

section \<open>Repeated calls on one printer\<close>

text \<open>
  A caller that prints the objects of a list one after the other on the same printer and
  the same output, whatever each call returns. \<open>before\<close> is the printer and the output
  as the first \<open>i\<close> calls leave them.
\<close>

fun before ::
  "('t, 'o) tabwriter \<Rightarrow> 't HumanReadablePrinter \<Rightarrow> 'o Writer \<Rightarrow> Object list \<Rightarrow> nat \<Rightarrow>
     't HumanReadablePrinter \<times> 'o Writer" where
  "before T h output objs 0 = (h, output)"
| "before T h output [] (Suc i) = (h, output)"
| "before T h output (obj # objs) (Suc i) =
     (case PrintObj T h obj output of (h', output', err) \<Rightarrow> before T h' output' objs i)"

text \<open>
  What a call on a registered type does to the output once it is known whether the header
  row is due: on a fresh tabwriter over the output the header row is written or not, the
  render function runs on that tabwriter, and the tabwriter is flushed. The result is the
  output after the flush and the error of the render function.
\<close>

definition render ::
  "('t, 'o) tabwriter \<Rightarrow> bool \<Rightarrow> 't handlerEntry \<Rightarrow> Object \<Rightarrow> 'o Writer \<Rightarrow>
     'o Writer \<times> goerror option" where
  "render T header handler obj output =
     (let w = \<lparr>Write = twWrite T, st = NewWriter T output 20 5 3 CHR '' '' 0\<rparr>;
          w = (if header then fst (Fprintf w (Join (columns handler) [TAB] @ [NL])) else w);
          (w, err) = Call (printFunc handler) obj w
      in (fst (Flush T (st w)), err))"


section \<open>Rendering the items of a list\<close>

text \<open>
  \<open>rendered f w xs\<close> is the writer after the render function \<open>f\<close> has run once on each
  item of \<open>xs\<close>, in order; \<open>all_ok f w xs\<close> says that each of these runs returns nil.
\<close>

definition rendered ::
  "('a \<Rightarrow> 'w Writer \<Rightarrow> 'w Writer \<times> goerror option) \<Rightarrow> 'w Writer \<Rightarrow> 'a list \<Rightarrow> 'w Writer" where
  "rendered f w xs = foldl (\<lambda>w x. fst (f x w)) w xs"

fun all_ok ::
  "('a \<Rightarrow> 'w Writer \<Rightarrow> 'w Writer \<times> goerror option) \<Rightarrow> 'w Writer \<Rightarrow> 'a list \<Rightarrow> bool" where
  "all_ok f w [] = True"
| "all_ok f w (x # xs) = (snd (f x w) = None \<and> all_ok f (fst (f x w)) xs)"

text \<open>
  A list-form render function delegates to the singular one: when every item renders
  without error it has rendered all of them in order and returns nil; when the item \<open>x\<close>
  is the first whose rendering returns an error, the items before \<open>x\<close> and \<open>x\<close> itself
  have been rendered, no item after \<open>x\<close> has, and that error is returned.
\<close>

definition delegates ::
  "('l \<Rightarrow> 'w Writer \<Rightarrow> 'w Writer \<times> goerror option) \<Rightarrow> ('l \<Rightarrow> 'a list) \<Rightarrow>
     ('a \<Rightarrow> 'w Writer \<Rightarrow> 'w Writer \<times> goerror option) \<Rightarrow> bool" where
  "delegates printList items printOne \<longleftrightarrow>
     (\<forall>list w. all_ok printOne w (items list) \<longrightarrow>
        printList list w = (rendered printOne w (items list), None)) \<and>
     (\<forall>list w pre x post err.
        items list = pre @ x # post \<and> all_ok printOne w pre \<and>
        snd (printOne x (rendered printOne w pre)) = Some err \<longrightarrow>
        printList list w = (fst (printOne x (rendered printOne w pre)), Some err))"

section \<open>Sample collaborators\<close>

text \<open>
  Instances on which the definitions can be evaluated: a writer that keeps what it is
  given, a writer that refuses every write, a tabwriter that buffers the text and hands
  it to the output unaligned at the flush, and plain collaborators.
\<close>

definition bufferWriter :: "string \<Rightarrow> string Writer" where
  "bufferWriter s = \<lparr>Write = (\<lambda>s p. (s @ p, None)), st = s\<rparr>"

definition brokenWriter :: "string Writer" where
  "brokenWriter = \<lparr>Write = (\<lambda>s p. (s, Some (ExternalError ''closed pipe''))), st = []\<rparr>"

definition plainTabwriter :: "(string \<times> 'o Writer, 'o) tabwriter" where
  "plainTabwriter =
     \<lparr>NewWriter = (\<lambda>output minwidth tabwidth padding padchar flags. ([], output)),
      twWrite = (\<lambda>(buf, output) p. ((buf @ p, output), None)),
      Flush = (\<lambda>(buf, output). Fprintf output buf)\<rparr>"

definition imagesOf :: "PodSpec \<Rightarrow> string" where
  "imagesOf spec = Join (map Image (PodSpec.Containers spec)) '',''"

definition plainCollab :: collab where
  "plainCollab =
     \<lparr>Convert = (\<lambda>m spec. (spec\<lparr>PodSpec.Containers := ContainerManifest.Containers m\<rparr>, None)),
      makeImageList = imagesOf,
      SetString = (\<lambda>l. case l ''name'' of None \<Rightarrow> [] | Some v \<Rightarrow> ''name='' @ v)\<rparr>"

text \<open>The services of \<open>pkg/config/config_test.json\<close>.\<close>

definition frontend :: Service where
  "frontend =
     \<lparr>ObjectMeta.Name = ''frontend'', Labels = Map.empty,
      Spec = \<lparr>Port = 5432, Selector = [''name'' \<mapsto> ''frontend''], PortalIP = []\<rparr>\<rparr>"

definition redismaster :: Service where
  "redismaster =
     \<lparr>ObjectMeta.Name = ''redismaster'', Labels = Map.empty,
      Spec = \<lparr>Port = 10000, Selector = [''name'' \<mapsto> ''redis-master''], PortalIP = []\<rparr>\<rparr>"


text \<open>
  The state of the sample tabwriter over a \<open>bufferWriter\<close>, and a new printer with
  headers enabled whose render functions write to it.
\<close>

type_synonym tabstate = "string \<times> string Writer"

definition samplePrinter :: "tabstate HumanReadablePrinter" where
  "samplePrinter = NewHumanReadablePrinter plainCollab False"

text \<open>
  A render function that writes nothing and always returns an error, registered next to
  the default handlers for a type of its own; and a function of three parameters.
\<close>

definition widget :: rtype where
  "widget = TStruct ''main.Widget''"

definition failing :: "tabstate Value" where
  "failing =
     Val (TFunc [widget, io_Writer] [error_type])
       (Some (\<lambda>obj w. (w, Some (ExternalError ''boom''))))"

definition widgetPrinter :: "tabstate HumanReadablePrinter" where
  "widgetPrinter = fst (Handler samplePrinter [''WIDGET''] failing)"

definition threeParams :: "tabstate Value" where
  "threeParams = Val (TFunc [widget, io_Writer, TBasic ''int''] [error_type]) None"

text \<open>A writer that takes the given number of writes and refuses every later one.\<close>

definition quotaWriter :: "nat \<Rightarrow> (nat \<times> string) Writer" where
  "quotaWriter n =
     \<lparr>Write = (\<lambda>(k, s) p. if k = 0 then ((k, s), Some (ExternalError ''quota exceeded''))
                           else ((k - 1, s @ p), None)),
      st = (n, [])\<rparr>"

definition minion :: "string \<Rightarrow> Minion" where
  "minion name = \<lparr>ObjectMeta.Name = name, Labels = Map.empty, HostIP = []\<rparr>"

text \<open>
  An encoder for one API version that encodes services only, with an indenter that puts
  the prefix and one indent before the text; the same encoder with an indenter that
  fails and leaves the buffer as it was.
\<close>

definition sampleEncode :: "Object \<Rightarrow> goerror + string" where
  "sampleEncode obj =
     (case obj of
        ServiceObj svc \<Rightarrow> Inr (''{id:'' @ ObjectMeta.Name svc @ ''}'')
      | _ \<Rightarrow> Inl (ExternalError ''cannot encode''))"

definition sampleEncoding :: encoding where
  "sampleEncoding =
     \<lparr>InterfacesFor = (\<lambda>v. if v = ''v1beta1'' then Inr sampleEncode
                            else Inl (ExternalError ''unsupported API version'')),
      Indent = (\<lambda>dst src prefix indent. (dst @ prefix @ indent @ src, None))\<rparr>"

definition brokenIndentEncoding :: encoding where
  "brokenIndentEncoding =
     sampleEncoding\<lparr>Indent :=
       (\<lambda>dst src prefix indent. (dst, Some (ExternalError ''invalid character'')))\<rparr>"

text \<open>An indenter that fails after it has put the first byte of the text into the buffer.\<close>

definition partialIndentEncoding :: encoding where
  "partialIndentEncoding =
     sampleEncoding\<lparr>Indent :=
       (\<lambda>dst src prefix indent. (dst @ take 1 src, Some (ExternalError ''unexpected end'')))\<rparr>"

text \<open>
  A template parser that rejects one text, on a file system with one file; a template is
  its text.
\<close>

definition sampleTemplating :: "string templating" where
  "sampleTemplating =
     \<lparr>Parse = (\<lambda>t. if t = ''{{'' then Inl (ExternalError ''unclosed action'') else Inr t),
      ReadFile = (\<lambda>path. if path = ''/tmp/t'' then Inr ''{{.id}}''
                          else Inl (ExternalError ''no such file''))\<rparr>"

text \<open>
  A conversion that fails and leaves its destination as it was, a conversion that fails
  after it has copied the containers into its destination, and a pod.
\<close>

definition noConversion :: collab where
  "noConversion =
     plainCollab\<lparr>Convert := (\<lambda>m spec. (spec, Some (ExternalError ''no conversion'')))\<rparr>"

definition partialConversion :: collab where
  "partialConversion =
     plainCollab\<lparr>Convert :=
       (\<lambda>m spec. (spec\<lparr>PodSpec.Containers := ContainerManifest.Containers m\<rparr>,
                   Some (ExternalError ''unknown restart policy'')))\<rparr>"

definition webPod :: Pod where
  "webPod =
     \<lparr>ObjectMeta.Name = ''web'', Labels = [''name'' \<mapsto> ''web''],
      DesiredState =
        \<lparr>Manifest = \<lparr>Version = ''v1beta1'',
                      ContainerManifest.Containers = [\<lparr>Image = ''nginx''\<rparr>]\<rparr>,
         PodState.Status = ''Running'', Host = [], PodState.HostIP = []\<rparr>,
      CurrentState =
        \<lparr>Manifest = \<lparr>Version = [], ContainerManifest.Containers = []\<rparr>,
         PodState.Status = ''Running'', Host = ''host1'', PodState.HostIP = ''10.0.0.1''\<rparr>\<rparr>"

section \<open>Basic facts\<close>

lemma st_bufferWriter: "st (bufferWriter s) = s"
  by (simp add: bufferWriter_def)

lemma Fprintf_bufferWriter: "Fprintf (bufferWriter s) p = (bufferWriter (s @ p), None)"
  by (simp add: Fprintf_def bufferWriter_def)

lemma Fprintf_brokenWriter:
  "Fprintf brokenWriter p = (brokenWriter, Some (ExternalError ''closed pipe''))"
  by (simp add: Fprintf_def brokenWriter_def)

lemma PrintObj_no_handler:
  "handlerMap h (TypeOf obj) = None \<Longrightarrow>
   PrintObj T h obj out =
     (h, fst (Flush T (NewWriter T out 20 5 3 CHR '' '' 0)), Some (UnknownType obj))"
  by (simp add: PrintObj_def)

lemma PrintObj_handler:
  "handlerMap h (TypeOf obj) = Some handler \<Longrightarrow>
   PrintObj T h obj out =
     (h\<lparr>lastType :=
          (if \<not> noHeaders h \<and> TypeOf obj \<noteq> lastType h then TypeOf obj else lastType h)\<rparr>,
      render T (\<not> noHeaders h \<and> TypeOf obj \<noteq> lastType h) handler obj out)"
  by (simp add: PrintObj_def render_def printHeader_def Let_def split: prod.splits option.splits)

lemma before_one:
  "before T h out (obj # objs) 1 = (fst (PrintObj T h obj out), fst (snd (PrintObj T h obj out)))"
  unfolding One_nat_def by (simp split: prod.splits)

lemma Handler_default:
  "Handler h cols (handlerValue name body) =
     (h\<lparr>handlerMap := (handlerMap h)
          (Some (TPtr (TStruct name)) \<mapsto> \<lparr>columns = cols, printFunc = handlerValue name body\<rparr>)\<rparr>,
      None)"
  by (simp add: Handler_def handlerValue_def)

text \<open>The printer that \<open>NewHumanReadablePrinter\<close> builds: eleven entries, no last type.\<close>

lemma NewHumanReadablePrinter_eq:
  "NewHumanReadablePrinter C nh =
     \<lparr>handlerMap =
        [Some (TPtr (TStruct ''api.Pod'')) \<mapsto>
           \<lparr>columns = podColumns, printFunc = printPod_Value C\<rparr>,
         Some (TPtr (TStruct ''api.PodList'')) \<mapsto>
           \<lparr>columns = podColumns, printFunc = printPodList_Value C\<rparr>,
         Some (TPtr (TStruct ''api.ReplicationController'')) \<mapsto>
           \<lparr>columns = replicationControllerColumns,
            printFunc = printReplicationController_Value C\<rparr>,
         Some (TPtr (TStruct ''api.ReplicationControllerList'')) \<mapsto>
           \<lparr>columns = replicationControllerColumns,
            printFunc = printReplicationControllerList_Value C\<rparr>,
         Some (TPtr (TStruct ''api.Service'')) \<mapsto>
           \<lparr>columns = serviceColumns, printFunc = printService_Value C\<rparr>,
         Some (TPtr (TStruct ''api.ServiceList'')) \<mapsto>
           \<lparr>columns = serviceColumns, printFunc = printServiceList_Value C\<rparr>,
         Some (TPtr (TStruct ''api.Minion'')) \<mapsto>
           \<lparr>columns = minionColumns, printFunc = printMinion_Value\<rparr>,
         Some (TPtr (TStruct ''api.MinionList'')) \<mapsto>
           \<lparr>columns = minionColumns, printFunc = printMinionList_Value\<rparr>,
         Some (TPtr (TStruct ''api.Status'')) \<mapsto>
           \<lparr>columns = statusColumns, printFunc = printStatus_Value\<rparr>,
         Some (TPtr (TStruct ''api.Event'')) \<mapsto>
           \<lparr>columns = eventColumns, printFunc = printEvent_Value\<rparr>,
         Some (TPtr (TStruct ''api.EventList'')) \<mapsto>
           \<lparr>columns = eventColumns, printFunc = printEventList_Value\<rparr>],
      noHeaders = nh, lastType = None\<rparr>"
  unfolding NewHumanReadablePrinter_def addDefaultHandlers_def Let_def
    printPod_Value_def printPodList_Value_def printReplicationController_Value_def
    printReplicationControllerList_Value_def printService_Value_def printServiceList_Value_def
    printMinion_Value_def printMinionList_Value_def printStatus_Value_def printEvent_Value_def
    printEventList_Value_def Handler_default
  by simp

lemma widgetPrinter_simps:
  "handlerMap widgetPrinter (Some widget) = Some \<lparr>columns = [''WIDGET''], printFunc = failing\<rparr>"
  "handlerMap widgetPrinter (Some (TPtr (TStruct ''api.Service''))) =
     Some \<lparr>columns = serviceColumns, printFunc = printService_Value plainCollab\<rparr>"
  "noHeaders widgetPrinter = False"
  "lastType widgetPrinter = None"
  by (simp_all add: widgetPrinter_def samplePrinter_def failing_def Handler_def
      NewHumanReadablePrinter_eq widget_def io_Writer_def error_type_def)

section \<open>Headers across repeated calls\<close>

text \<open>
  On objects with registered handlers a call changes nothing of the printer but the last
  type, so before call \<open>i\<close> the last type is the type of the object of call \<open>i - 1\<close>
  when headers are enabled, and the one the printer started with otherwise.
\<close>

lemma before_registered:
  "\<forall>obj \<in> set objs. handlerMap h (TypeOf obj) \<noteq> None \<Longrightarrow> i \<le> length objs \<Longrightarrow>
   fst (before T h out objs i) =
     h\<lparr>lastType := (if i = 0 \<or> noHeaders h then lastType h else TypeOf (objs ! (i - 1)))\<rparr>"
proof (induction objs arbitrary: h out i)
  case Nil
  then show ?case by simp
next
  case (Cons obj objs)
  show ?case
  proof (cases i)
    case 0
    then show ?thesis by simp
  next
    case (Suc j)
    from Cons.prems obtain handler where hd: "handlerMap h (TypeOf obj) = Some handler"
      by auto
    define h' where "h' = h\<lparr>lastType :=
      (if \<not> noHeaders h \<and> TypeOf obj \<noteq> lastType h then TypeOf obj else lastType h)\<rparr>"
    define out' where
      "out' = fst (render T (\<not> noHeaders h \<and> TypeOf obj \<noteq> lastType h) handler obj out)"
    have step: "before T h out (obj # objs) (Suc j) = before T h' out' objs j"
      by (simp add: PrintObj_handler [OF hd] h'_def out'_def split: prod.splits)
    have reg': "\<forall>obj \<in> set objs. handlerMap h' (TypeOf obj) \<noteq> None"
      using Cons.prems(1) by (simp add: h'_def)
    have j: "j \<le> length objs"
      using Cons.prems(2) Suc by simp
    have "fst (before T h' out' objs j) =
        h'\<lparr>lastType := (if j = 0 \<or> noHeaders h' then lastType h' else TypeOf (objs ! (j - 1)))\<rparr>"
      by (rule Cons.IH [OF reg' j])
    then show ?thesis
      unfolding Suc step by (cases j) (auto simp: h'_def)
  qed
qed

text \<open>
  C1. Take any list of objects whose types all have a handler, printed one after the other
  on one printer \<open>h\<close>, and any call \<open>i\<close> of them. The last-printed type before that call
  is the type of the previous object (the printer's initial last type, which is none for a
  new printer, before the first call and whenever headers are suppressed), whatever the
  earlier render functions returned. The call writes the header row exactly when headers
  are not suppressed and the object's type differs from that last-printed type, and then
  the printer it leaves has the object's type as last type, whatever the render function
  returns: the printer after the call does not depend on the render function's result.
\<close>

theorem PrintObj_header_on_type_change:
  assumes "\<forall>obj \<in> set objs. handlerMap h (TypeOf obj) \<noteq> None" and "i < length objs"
  shows "lastType (NewHumanReadablePrinter C nh :: 't HumanReadablePrinter) = None \<and>
         (let (hi, outi) = before T h out objs i;
              obj = objs ! i;
              last = (if i = 0 \<or> noHeaders h then lastType h else TypeOf (objs ! (i - 1)));
              header = (\<not> noHeaders h \<and> TypeOf obj \<noteq> last)
          in lastType hi = last \<and>
             PrintObj T hi obj outi =
               (h\<lparr>lastType := (if header then TypeOf obj else last)\<rparr>,
                render T header (the (handlerMap h (TypeOf obj))) obj outi))"
proof -
  define last where
    "last = (if i = 0 \<or> noHeaders h then lastType h else TypeOf (objs ! (i - 1)))"
  obtain hi outi where b: "before T h out objs i = (hi, outi)"
    by (cases "before T h out objs i")
  have hi: "hi = h\<lparr>lastType := last\<rparr>"
    using before_registered [OF assms(1), of i T out] assms(2) b by (simp add: last_def)
  from assms obtain handler where hd: "handlerMap h (TypeOf (objs ! i)) = Some handler"
    by (metis nth_mem not_Some_eq)
  then have hd': "handlerMap hi (TypeOf (objs ! i)) = Some handler"
    by (simp add: hi)
  show ?thesis
    using PrintObj_handler [OF hd', of T outi] hd
    by (simp add: b hi Let_def last_def NewHumanReadablePrinter_eq)
qed

theorem PrintObj_header_on_type_change_witness:
  "handlerMap widgetPrinter (TypeOf (OtherObj widget ''a'')) \<noteq> None \<and>
   handlerMap widgetPrinter (TypeOf (ServiceObj frontend)) \<noteq> None \<and>
   snd (snd (PrintObj plainTabwriter widgetPrinter (OtherObj widget ''a'') (bufferWriter []))) =
     Some (ExternalError ''boom'') \<and>
   lastType (fst (before plainTabwriter widgetPrinter (bufferWriter [])
     [OtherObj widget ''a'', OtherObj widget ''b'', ServiceObj frontend] 1)) = Some widget \<and>
   fst (PrintObj plainTabwriter
         (fst (before plainTabwriter widgetPrinter (bufferWriter [])
            [OtherObj widget ''a'', OtherObj widget ''b'', ServiceObj frontend] 1))
         (OtherObj widget ''b'')
         (snd (before plainTabwriter widgetPrinter (bufferWriter [])
            [OtherObj widget ''a'', OtherObj widget ''b'', ServiceObj frontend] 1))) =
     widgetPrinter\<lparr>lastType := Some widget\<rparr> \<and>
   st (fst (snd (PrintObj plainTabwriter
         (fst (before plainTabwriter widgetPrinter (bufferWriter [])
            [OtherObj widget ''a'', OtherObj widget ''b'', ServiceObj frontend] 1))
         (OtherObj widget ''b'')
         (snd (before plainTabwriter widgetPrinter (bufferWriter [])
            [OtherObj widget ''a'', OtherObj widget ''b'', ServiceObj frontend] 1))))) =
     ''WIDGET'' @ [NL]"
proof -
  let ?objs = "[OtherObj widget ''a'', OtherObj widget ''b'', ServiceObj frontend]"
  let ?b = "before plainTabwriter widgetPrinter (bufferWriter []) ?objs 1"
  have reg: "\<forall>obj \<in> set ?objs. handlerMap widgetPrinter (TypeOf obj) \<noteq> None"
    by (simp add: widgetPrinter_simps)
  have i: "1 < length ?objs"
    by simp
  have call0: "PrintObj plainTabwriter widgetPrinter (OtherObj widget ''a'') (bufferWriter []) =
      (widgetPrinter\<lparr>lastType := Some widget\<rparr>, bufferWriter (''WIDGET'' @ [NL]),
       Some (ExternalError ''boom''))"
    by (simp add: PrintObj_def widgetPrinter_simps failing_def plainTabwriter_def
        bufferWriter_def Fprintf_def printHeader_def)
  have b: "?b = (widgetPrinter\<lparr>lastType := Some widget\<rparr>, bufferWriter (''WIDGET'' @ [NL]))"
    using call0 by (simp add: before_one)
  have r: "render plainTabwriter False \<lparr>columns = [''WIDGET''], printFunc = failing\<rparr>
      (OtherObj widget ''b'') (bufferWriter s) = (bufferWriter s, Some (ExternalError ''boom''))"
    for s
    by (simp add: render_def failing_def plainTabwriter_def bufferWriter_def Fprintf_def)
  from PrintObj_header_on_type_change
    [OF reg i, where T = plainTabwriter and out = "bufferWriter []" and C = plainCollab
       and nh = False]
  have "lastType (fst ?b) = Some widget \<and>
        PrintObj plainTabwriter (fst ?b) (OtherObj widget ''b'') (snd ?b) =
          (widgetPrinter\<lparr>lastType := Some widget\<rparr>,
           render plainTabwriter False \<lparr>columns = [''WIDGET''], printFunc = failing\<rparr>
             (OtherObj widget ''b'') (snd ?b))"
    by (simp add: Let_def widgetPrinter_simps split: prod.splits)
  then show ?thesis
    using call0 by (simp add: widgetPrinter_simps b r st_bufferWriter)
qed

section \<open>Registration\<close>

text \<open>
  The validation accepts exactly the values of a function type with two parameters, the
  second of type \<open>io.Writer\<close>, and one result of type \<open>error\<close>.
\<close>

lemma validate_None_iff:
  "validatePrintHandlerFunc v = None \<longleftrightarrow>
     (\<exists>objType body. v = Val (TFunc [objType, io_Writer] [error_type]) body)"
proof (cases v)
  case ZeroValue
  then show ?thesis by simp
next
  case (Val funcType body)
  show ?thesis
  proof (cases funcType)
    case (TFunc ins outs)
    have "length ins = 2 \<and> length outs = 1 \<and> ins ! 1 = io_Writer \<and> outs ! 0 = error_type
          \<longleftrightarrow> (\<exists>objType. ins = [objType, io_Writer] \<and> outs = [error_type])"
      by (cases ins; cases outs; cases "tl ins"; auto)
    with Val TFunc show ?thesis by auto
  qed (use Val in auto)
qed

text \<open>
  C2. \<open>Handler\<close> returns no error exactly when the value is a function of exactly two
  parameters and one result whose second parameter is \<open>io.Writer\<close> and whose result is
  \<open>error\<close>. Whenever it returns an error the printer, and so the registry, is unchanged.
  On success the entry of the given columns and the function is stored under the type of
  the first parameter, in place of any entry that was there, and nothing else changes.
\<close>

theorem Handler_accepts_only_print_handlers:
  "(snd (Handler h cols v) = None \<longleftrightarrow>
      (\<exists>objType body. v = Val (TFunc [objType, io_Writer] [error_type]) body)) \<and>
   (snd (Handler h cols v) \<noteq> None \<longrightarrow> fst (Handler h cols v) = h) \<and>
   (\<forall>objType body. v = Val (TFunc [objType, io_Writer] [error_type]) body \<longrightarrow>
      Handler h cols v =
        (h\<lparr>handlerMap := (handlerMap h)(Some objType \<mapsto> \<lparr>columns = cols, printFunc = v\<rparr>)\<rparr>, None))"
proof (intro conjI)
  show "snd (Handler h cols v) = None \<longleftrightarrow>
      (\<exists>objType body. v = Val (TFunc [objType, io_Writer] [error_type]) body)"
    using validate_None_iff [of v]
    by (cases v) (auto simp: Handler_def split: option.splits)
  show "snd (Handler h cols v) \<noteq> None \<longrightarrow> fst (Handler h cols v) = h"
    by (cases v) (auto simp: Handler_def split: option.splits)
  show "\<forall>objType body. v = Val (TFunc [objType, io_Writer] [error_type]) body \<longrightarrow>
      Handler h cols v =
        (h\<lparr>handlerMap := (handlerMap h)(Some objType \<mapsto> \<lparr>columns = cols, printFunc = v\<rparr>)\<rparr>, None)"
    by (auto simp: Handler_def)
qed

theorem Handler_accepts_only_print_handlers_witness:
  "snd (Handler widgetPrinter [''NEW''] threeParams) \<noteq> None \<and>
   fst (Handler widgetPrinter [''NEW''] threeParams) = widgetPrinter \<and>
   handlerMap widgetPrinter (Some widget) =
     Some \<lparr>columns = [''WIDGET''], printFunc = failing\<rparr> \<and>
   Handler widgetPrinter [''NEW''] failing =
     (widgetPrinter\<lparr>handlerMap := (handlerMap widgetPrinter)
        (Some widget \<mapsto> \<lparr>columns = [''NEW''], printFunc = failing\<rparr>)\<rparr>, None)"
proof -
  have bad: "snd (Handler widgetPrinter [''NEW''] threeParams) \<noteq> None"
    using Handler_accepts_only_print_handlers [of widgetPrinter "[''NEW'']" threeParams]
    by (simp add: threeParams_def)
  then have kept: "fst (Handler widgetPrinter [''NEW''] threeParams) = widgetPrinter"
    using Handler_accepts_only_print_handlers [of widgetPrinter "[''NEW'']" threeParams] by blast
  have good: "Handler widgetPrinter [''NEW''] failing =
     (widgetPrinter\<lparr>handlerMap := (handlerMap widgetPrinter)
        (Some widget \<mapsto> \<lparr>columns = [''NEW''], printFunc = failing\<rparr>)\<rparr>, None)"
    using Handler_accepts_only_print_handlers [of widgetPrinter "[''NEW'']" failing]
    by (simp add: failing_def)
  show ?thesis
    using bad kept good by (simp add: widgetPrinter_simps)
qed

section \<open>Unknown types\<close>

text \<open>
  C3. When the registry has no entry for the type of the object, \<open>PrintObj\<close> returns the
  unknown-type error that carries the object, and the output is the one the flush of a
  tabwriter that was never written to leaves: neither a header row nor a data row is
  written. With a tabwriter whose flush without writes leaves the output as it was, the
  output is unchanged.
\<close>

theorem PrintObj_unknown_type_writes_nothing:
  "handlerMap h (TypeOf obj) = None \<longrightarrow>
     snd (snd (PrintObj T h obj out)) = Some (UnknownType obj) \<and>
     fst (snd (PrintObj T h obj out)) = fst (Flush T (NewWriter T out 20 5 3 CHR '' '' 0)) \<and>
     (fst (Flush T (NewWriter T out 20 5 3 CHR '' '' 0)) = out \<longrightarrow>
        fst (snd (PrintObj T h obj out)) = out)"
  by (simp add: PrintObj_no_handler)

theorem PrintObj_unknown_type_writes_nothing_witness:
  "handlerMap samplePrinter (TypeOf (OtherObj widget ''w'')) = None \<and>
   fst (Flush plainTabwriter (NewWriter plainTabwriter (bufferWriter ''kept'') 20 5 3 CHR '' '' 0)) =
     bufferWriter ''kept'' \<and>
   snd (snd (PrintObj plainTabwriter samplePrinter
     (OtherObj widget ''w'') (bufferWriter ''kept''))) = Some (UnknownType (OtherObj widget ''w'')) \<and>
   fst (snd (PrintObj plainTabwriter samplePrinter
     (OtherObj widget ''w'') (bufferWriter ''kept''))) = bufferWriter ''kept''"
proof -
  have none: "handlerMap samplePrinter
      (TypeOf (OtherObj widget ''w'')) = None"
    by (simp add: samplePrinter_def NewHumanReadablePrinter_eq widget_def)
  have flush: "fst (Flush plainTabwriter
      (NewWriter plainTabwriter (bufferWriter ''kept'') 20 5 3 CHR '' '' 0)) = bufferWriter ''kept''"
    by (simp add: plainTabwriter_def bufferWriter_def Fprintf_def)
  show ?thesis
    using PrintObj_unknown_type_writes_nothing [of samplePrinter "OtherObj widget ''w''"
        plainTabwriter "bufferWriter ''kept''"] none flush
    by simp
qed

text \<open>
  C9. A call that fails because the registry has no entry for the type of the object
  leaves the printer as it was, so every later call behaves as it would have without the
  failed call.
\<close>

theorem PrintObj_unknown_type_keeps_printer:
  "handlerMap h (TypeOf obj) = None \<longrightarrow>
     fst (PrintObj T h obj out) = h \<and>
     (\<forall>obj' out'. PrintObj T (fst (PrintObj T h obj out)) obj' out' = PrintObj T h obj' out')"
  by (simp add: PrintObj_no_handler)

theorem PrintObj_unknown_type_keeps_printer_witness:
  "handlerMap (widgetPrinter\<lparr>lastType := Some widget\<rparr>) (TypeOf NilObject) = None \<and>
   fst (PrintObj plainTabwriter (widgetPrinter\<lparr>lastType := Some widget\<rparr>) NilObject (bufferWriter [])) =
     widgetPrinter\<lparr>lastType := Some widget\<rparr> \<and>
   PrintObj plainTabwriter
     (fst (PrintObj plainTabwriter (widgetPrinter\<lparr>lastType := Some widget\<rparr>) NilObject (bufferWriter [])))
     (OtherObj widget ''a'') (bufferWriter []) =
   PrintObj plainTabwriter (widgetPrinter\<lparr>lastType := Some widget\<rparr>)
     (OtherObj widget ''a'') (bufferWriter [])"
proof -
  have none: "handlerMap (widgetPrinter\<lparr>lastType := Some widget\<rparr>)
      (TypeOf NilObject) = None"
    by (simp add: widgetPrinter_def samplePrinter_def NewHumanReadablePrinter_eq Handler_def failing_def
        io_Writer_def error_type_def)
  show ?thesis
    using PrintObj_unknown_type_keeps_printer [of "widgetPrinter\<lparr>lastType := Some widget\<rparr>" NilObject plainTabwriter
        "bufferWriter []"] none
    by simp
qed

section \<open>The factory\<close>

text \<open>
  C4. \<open>GetPrinter\<close> returns an error exactly when the format is none of \<open>json\<close>,
  \<open>yaml\<close>, \<open>template\<close>, \<open>templatefile\<close> and the empty string, or the format is
  \<open>template\<close> or \<open>templatefile\<close> and the source argument is empty, or the format is
  \<open>template\<close> and the text does not parse, or the format is \<open>templatefile\<close> and the
  file cannot be read or its content does not parse. The error for an unknown format
  carries the format. For the empty format the result is the fallback printer itself.
\<close>

theorem GetPrinter_error_cases:
  "((\<exists>err. GetPrinter S ver format templateFile defaultPrinter = Inl err) \<longleftrightarrow>
      format \<notin> {''json'', ''yaml'', ''template'', ''templatefile'', []} \<or>
      (format = ''template'' \<or> format = ''templatefile'') \<and> templateFile = [] \<or>
      format = ''template'' \<and> (\<exists>err. Parse S templateFile = Inl err) \<or>
      format = ''templatefile'' \<and>
        ((\<exists>err. ReadFile S templateFile = Inl err) \<or>
         (\<exists>data err. ReadFile S templateFile = Inr data \<and> Parse S data = Inl err))) \<and>
   (format \<notin> {''json'', ''yaml'', ''template'', ''templatefile'', []} \<longrightarrow>
      GetPrinter S ver format templateFile defaultPrinter = Inl (FormatNotRecognized format)) \<and>
   (format = [] \<longrightarrow> GetPrinter S ver format templateFile defaultPrinter = Inr defaultPrinter)"
  by (auto simp: GetPrinter_def NewTemplatePrinter_def split: sum.splits)

theorem GetPrinter_error_cases_witness:
  "''xml'' \<notin> {''json'', ''yaml'', ''template'', ''templatefile'', []} \<and>
   GetPrinter sampleTemplating ''v1beta1'' ''xml'' [] (HumanReadable samplePrinter) =
     Inl (FormatNotRecognized ''xml'') \<and>
   GetPrinter sampleTemplating ''v1beta1'' [] [] (HumanReadable samplePrinter) =
     Inr (HumanReadable samplePrinter) \<and>
   (\<exists>err. GetPrinter sampleTemplating ''v1beta1'' ''template'' ''{{'' (HumanReadable samplePrinter) =
      Inl err) \<and>
   (\<exists>err. GetPrinter sampleTemplating ''v1beta1'' ''templatefile'' ''/tmp/none''
      (HumanReadable samplePrinter) = Inl err) \<and>
   (\<exists>err. GetPrinter sampleTemplating ''v1beta1'' ''templatefile'' []
      (HumanReadable samplePrinter) = Inl err) \<and>
   (\<nexists>err. GetPrinter sampleTemplating ''v1beta1'' ''templatefile'' ''/tmp/t''
      (HumanReadable samplePrinter) = Inl err) \<and>
   (\<nexists>err. GetPrinter sampleTemplating ''v1beta1'' ''json'' [] (HumanReadable samplePrinter) =
      Inl err)"
proof -
  have xml: "''xml'' \<notin> {''json'', ''yaml'', ''template'', ''templatefile'', []}"
    by simp
  have 1: "GetPrinter sampleTemplating ''v1beta1'' ''xml'' [] (HumanReadable samplePrinter) =
     Inl (FormatNotRecognized ''xml'')"
    using GetPrinter_error_cases [of sampleTemplating "''v1beta1''" "''xml''" "[]" "HumanReadable samplePrinter"] xml
    by blast
  have 2: "GetPrinter sampleTemplating ''v1beta1'' [] [] (HumanReadable samplePrinter) =
     Inr (HumanReadable samplePrinter)"
    using GetPrinter_error_cases [of sampleTemplating "''v1beta1''" "[]" "[]" "HumanReadable samplePrinter"]
    by blast
  have 3: "\<exists>err. GetPrinter sampleTemplating ''v1beta1'' ''template'' ''{{''
      (HumanReadable samplePrinter) = Inl err"
    using GetPrinter_error_cases [of sampleTemplating "''v1beta1''" "''template''" "''{{''"
        "HumanReadable samplePrinter"]
    by (simp add: sampleTemplating_def)
  have 4: "\<exists>err. GetPrinter sampleTemplating ''v1beta1'' ''templatefile'' ''/tmp/none''
      (HumanReadable samplePrinter) = Inl err"
    using GetPrinter_error_cases [of sampleTemplating "''v1beta1''" "''templatefile''" "''/tmp/none''"
        "HumanReadable samplePrinter"]
    by (simp add: sampleTemplating_def)
  have 5: "\<exists>err. GetPrinter sampleTemplating ''v1beta1'' ''templatefile'' []
      (HumanReadable samplePrinter) = Inl err"
    using GetPrinter_error_cases [of sampleTemplating "''v1beta1''" "''templatefile''" "[]"
        "HumanReadable samplePrinter"]
    by simp
  have 6: "\<nexists>err. GetPrinter sampleTemplating ''v1beta1'' ''templatefile'' ''/tmp/t''
      (HumanReadable samplePrinter) = Inl err"
    using GetPrinter_error_cases [of sampleTemplating "''v1beta1''" "''templatefile''" "''/tmp/t''"
        "HumanReadable samplePrinter"]
    by (simp add: sampleTemplating_def)
  have 7: "\<nexists>err. GetPrinter sampleTemplating ''v1beta1'' ''json'' []
      (HumanReadable samplePrinter) = Inl err"
    using GetPrinter_error_cases [of sampleTemplating "''v1beta1''" "''json''" "[]" "HumanReadable samplePrinter"]
    by simp
  from xml 1 2 3 4 5 6 7 show ?thesis
    by blast
qed

section \<open>JSON output\<close>

text \<open>
  C6. When the lookup of the printer's API version fails, or the encoder fails,
  \<open>JSONPrinter.PrintObj\<close> returns that error and the writer is as it was. Otherwise it
  hands the writer, in one \<open>Write\<close> call, what \<open>json.Indent\<close> with the empty prefix and an
  indent of four spaces put into the buffer for the encoder's bytes, followed by a newline.
\<close>

theorem JSONPrinter_PrintObj_writes_indented:
  "(\<forall>err. InterfacesFor E (JSONPrinter.version j) = Inl err \<longrightarrow>
      JSONPrinter_PrintObj E j obj w = (w, Some err)) \<and>
   (\<forall>Encode err. InterfacesFor E (JSONPrinter.version j) = Inr Encode \<and> Encode obj = Inl err \<longrightarrow>
      JSONPrinter_PrintObj E j obj w = (w, Some err)) \<and>
   (\<forall>Encode data. InterfacesFor E (JSONPrinter.version j) = Inr Encode \<and> Encode obj = Inr data \<longrightarrow>
      JSONPrinter_PrintObj E j obj w = Fprintf w (fst (Indent E [] data [] ''    '') @ [NL]))"
  by (auto simp: JSONPrinter_PrintObj_def Fprintf_def Let_def split: prod.splits)

theorem JSONPrinter_PrintObj_writes_indented_witness:
  "JSONPrinter_PrintObj sampleEncoding \<lparr>JSONPrinter.version = ''v9''\<rparr> (ServiceObj frontend)
       (bufferWriter ''kept'') =
     (bufferWriter ''kept'', Some (ExternalError ''unsupported API version'')) \<and>
   JSONPrinter_PrintObj sampleEncoding \<lparr>JSONPrinter.version = ''v1beta1''\<rparr> NilObject
       (bufferWriter ''kept'') =
     (bufferWriter ''kept'', Some (ExternalError ''cannot encode'')) \<and>
   JSONPrinter_PrintObj sampleEncoding \<lparr>JSONPrinter.version = ''v1beta1''\<rparr> (ServiceObj frontend)
       (bufferWriter []) =
     (bufferWriter (''    {id:frontend}'' @ [NL]), None)"
proof -
  have 1: "JSONPrinter_PrintObj sampleEncoding \<lparr>JSONPrinter.version = ''v9''\<rparr>
      (ServiceObj frontend) (bufferWriter ''kept'') =
      (bufferWriter ''kept'', Some (ExternalError ''unsupported API version''))"
    using JSONPrinter_PrintObj_writes_indented [of sampleEncoding "\<lparr>JSONPrinter.version = ''v9''\<rparr>" "ServiceObj frontend"
        "bufferWriter ''kept''"]
    by (simp add: sampleEncoding_def)
  have 2: "JSONPrinter_PrintObj sampleEncoding \<lparr>JSONPrinter.version = ''v1beta1''\<rparr> NilObject
      (bufferWriter ''kept'') = (bufferWriter ''kept'', Some (ExternalError ''cannot encode''))"
    using JSONPrinter_PrintObj_writes_indented [of sampleEncoding "\<lparr>JSONPrinter.version = ''v1beta1''\<rparr>" NilObject
        "bufferWriter ''kept''"]
    by (simp add: sampleEncoding_def sampleEncode_def)
  have 3: "JSONPrinter_PrintObj sampleEncoding \<lparr>JSONPrinter.version = ''v1beta1''\<rparr>
      (ServiceObj frontend) (bufferWriter []) =
      (bufferWriter (''    {id:frontend}'' @ [NL]), None)"
    using JSONPrinter_PrintObj_writes_indented [of sampleEncoding "\<lparr>JSONPrinter.version = ''v1beta1''\<rparr>" "ServiceObj frontend"
        "bufferWriter []"]
    by (simp add: sampleEncoding_def sampleEncode_def frontend_def Fprintf_def bufferWriter_def)
  from 1 2 3 show ?thesis by blast
qed

text \<open>
  C8. When the encoding succeeds, \<open>JSONPrinter.PrintObj\<close> hands the writer, in one
  \<open>Write\<close> call, the content that \<open>json.Indent\<close> left in the buffer followed by a
  newline, whether \<open>json.Indent\<close> returned an error or not: the writer it leaves and the
  error it returns are those of that \<open>Write\<close> call. Replacing the error that
  \<open>json.Indent\<close> returns by any other changes nothing of the result, so a failed
  indentation is not seen by the caller.
\<close>

theorem JSONPrinter_PrintObj_drops_indent_error:
  "InterfacesFor E (JSONPrinter.version j) = Inr Encode \<and> Encode obj = Inr data \<longrightarrow>
     JSONPrinter_PrintObj E j obj w =
       (w\<lparr>st := fst (Write w (st w) (fst (Indent E [] data [] ''    '') @ [NL]))\<rparr>,
        snd (Write w (st w) (fst (Indent E [] data [] ''    '') @ [NL]))) \<and>
     (\<forall>e. JSONPrinter_PrintObj
            (E\<lparr>Indent := \<lambda>dst src prefix indent. (fst (Indent E dst src prefix indent), e)\<rparr>)
            j obj w =
          JSONPrinter_PrintObj E j obj w)"
  by (auto simp: JSONPrinter_PrintObj_def Let_def split: prod.splits)

theorem JSONPrinter_PrintObj_drops_indent_error_witness:
  "InterfacesFor partialIndentEncoding ''v1beta1'' = Inr sampleEncode \<and>
   sampleEncode (ServiceObj frontend) = Inr ''{id:frontend}'' \<and>
   Indent partialIndentEncoding [] ''{id:frontend}'' [] ''    '' =
     (''{'', Some (ExternalError ''unexpected end'')) \<and>
   JSONPrinter_PrintObj partialIndentEncoding \<lparr>JSONPrinter.version = ''v1beta1''\<rparr>
     (ServiceObj frontend) (bufferWriter ''before'') =
     (bufferWriter (''before'' @ ''{'' @ [NL]), None) \<and>
   JSONPrinter_PrintObj partialIndentEncoding \<lparr>JSONPrinter.version = ''v1beta1''\<rparr>
     (ServiceObj frontend) brokenWriter =
     (brokenWriter, Some (ExternalError ''closed pipe'')) \<and>
   JSONPrinter_PrintObj brokenIndentEncoding \<lparr>JSONPrinter.version = ''v1beta1''\<rparr>
     (ServiceObj frontend) (bufferWriter ''before'') =
     (bufferWriter (''before'' @ [NL]), None)"
proof -
  have lookup: "InterfacesFor partialIndentEncoding
      (JSONPrinter.version \<lparr>JSONPrinter.version = ''v1beta1''\<rparr>) = Inr sampleEncode"
    by (simp add: partialIndentEncoding_def sampleEncoding_def)
  have lookup': "InterfacesFor brokenIndentEncoding
      (JSONPrinter.version \<lparr>JSONPrinter.version = ''v1beta1''\<rparr>) = Inr sampleEncode"
    by (simp add: brokenIndentEncoding_def sampleEncoding_def)
  have enc: "sampleEncode (ServiceObj frontend) = Inr ''{id:frontend}''"
    by (simp add: sampleEncode_def frontend_def)
  have ind: "Indent partialIndentEncoding [] ''{id:frontend}'' [] ''    '' =
      (''{'', Some (ExternalError ''unexpected end''))"
    by (simp add: partialIndentEncoding_def)
  have ind': "Indent brokenIndentEncoding [] ''{id:frontend}'' [] ''    '' =
      ([], Some (ExternalError ''invalid character''))"
    by (simp add: brokenIndentEncoding_def)
  have 1: "JSONPrinter_PrintObj partialIndentEncoding \<lparr>JSONPrinter.version = ''v1beta1''\<rparr>
      (ServiceObj frontend) (bufferWriter ''before'') =
      (bufferWriter (''before'' @ ''{'' @ [NL]), None)"
    using JSONPrinter_PrintObj_drops_indent_error
      [of partialIndentEncoding "\<lparr>JSONPrinter.version = ''v1beta1''\<rparr>" sampleEncode
        "ServiceObj frontend" "''{id:frontend}''" "bufferWriter ''before''"] lookup enc
    by (simp add: ind bufferWriter_def)
  have 2: "JSONPrinter_PrintObj partialIndentEncoding \<lparr>JSONPrinter.version = ''v1beta1''\<rparr>
      (ServiceObj frontend) brokenWriter = (brokenWriter, Some (ExternalError ''closed pipe''))"
    using JSONPrinter_PrintObj_drops_indent_error
      [of partialIndentEncoding "\<lparr>JSONPrinter.version = ''v1beta1''\<rparr>" sampleEncode
        "ServiceObj frontend" "''{id:frontend}''" brokenWriter] lookup enc
    by (simp add: ind brokenWriter_def)
  have 3: "JSONPrinter_PrintObj brokenIndentEncoding \<lparr>JSONPrinter.version = ''v1beta1''\<rparr>
      (ServiceObj frontend) (bufferWriter ''before'') = (bufferWriter (''before'' @ [NL]), None)"
    using JSONPrinter_PrintObj_drops_indent_error
      [of brokenIndentEncoding "\<lparr>JSONPrinter.version = ''v1beta1''\<rparr>" sampleEncode
        "ServiceObj frontend" "''{id:frontend}''" "bufferWriter ''before''"] lookup' enc
    by (simp add: ind' bufferWriter_def)
  from lookup enc ind 1 2 3 show ?thesis by simp
qed

section \<open>Pods\<close>

text \<open>
  C10, as the claim states it, fails: with a conversion that fails after it has copied
  the containers of the manifest into its destination, the row that \<open>printPod\<close> writes
  for the sample pod names the image \<open>nginx\<close>, and is not the row of the zero-valued pod
  spec, whose image column is empty.
\<close>

theorem printPod_zero_spec_counterexample:
  "snd (Convert partialConversion (Manifest (DesiredState webPod)) \<lparr>PodSpec.Containers = []\<rparr>) =
     Some (ExternalError ''unknown restart policy'') \<and>
   printPod partialConversion webPod (bufferWriter []) =
     (bufferWriter (''web'' @ [TAB] @ ''nginx'' @ [TAB] @ ''host1/10.0.0.1'' @ [TAB] @
        ''name=web'' @ [TAB] @ ''Running'' @ [NL]), None) \<and>
   podRow partialConversion webPod \<lparr>PodSpec.Containers = []\<rparr> =
     ''web'' @ [TAB] @ [TAB] @ ''host1/10.0.0.1'' @ [TAB] @ ''name=web'' @ [TAB] @
     ''Running'' @ [NL] \<and>
   st (fst (printPod partialConversion webPod (bufferWriter []))) \<noteq>
     podRow partialConversion webPod \<lparr>PodSpec.Containers = []\<rparr>"
  by (simp add: printPod_def podRow_def partialConversion_def plainCollab_def webPod_def
      imagesOf_def podHostString_def Fprintf_bufferWriter st_bufferWriter)

text \<open>
  C10, amended. \<open>printPod\<close> never returns an error of the conversion: whatever the
  conversion returns, \<open>printPod\<close> writes one row, made from the pod spec as the conversion
  left it, and the writer it leaves and the error it returns are those of that \<open>Write\<close>
  call; replacing the error that the conversion returns by any other changes nothing of
  the result. The pod spec is zero-valued before the conversion, so the row is the one of
  the zero-valued pod spec when the failed conversion has not written to its destination.
\<close>

theorem printPod_drops_conversion_error:
  "printPod C pod w =
     Fprintf w (podRow C pod
       (fst (Convert C (Manifest (DesiredState pod)) \<lparr>PodSpec.Containers = []\<rparr>))) \<and>
   snd (printPod C pod w) =
     snd (Write w (st w) (podRow C pod
       (fst (Convert C (Manifest (DesiredState pod)) \<lparr>PodSpec.Containers = []\<rparr>)))) \<and>
   (\<forall>e. printPod (C\<lparr>Convert := \<lambda>m spec. (fst (Convert C m spec), e)\<rparr>) pod w = printPod C pod w) \<and>
   (\<forall>err. Convert C (Manifest (DesiredState pod)) \<lparr>PodSpec.Containers = []\<rparr> =
            (\<lparr>PodSpec.Containers = []\<rparr>, Some err) \<longrightarrow>
      printPod C pod w = Fprintf w (podRow C pod \<lparr>PodSpec.Containers = []\<rparr>))"
  by (auto simp: printPod_def podRow_def Fprintf_def Let_def split: prod.splits)

theorem printPod_drops_conversion_error_witness:
  "Convert noConversion (Manifest (DesiredState webPod)) \<lparr>PodSpec.Containers = []\<rparr> =
     (\<lparr>PodSpec.Containers = []\<rparr>, Some (ExternalError ''no conversion'')) \<and>
   printPod noConversion webPod (bufferWriter []) =
     (bufferWriter (''web'' @ [TAB] @ [TAB] @ ''host1/10.0.0.1'' @ [TAB] @ ''name=web'' @ [TAB] @
        ''Running'' @ [NL]), None) \<and>
   snd (printPod noConversion webPod brokenWriter) = Some (ExternalError ''closed pipe'') \<and>
   printPod partialConversion webPod brokenWriter =
     (brokenWriter, Some (ExternalError ''closed pipe''))"
proof -
  have conv: "Convert noConversion (Manifest (DesiredState webPod)) \<lparr>PodSpec.Containers = []\<rparr> =
     (\<lparr>PodSpec.Containers = []\<rparr>, Some (ExternalError ''no conversion''))"
    by (simp add: noConversion_def)
  have row: "podRow noConversion webPod \<lparr>PodSpec.Containers = []\<rparr> =
      ''web'' @ [TAB] @ [TAB] @ ''host1/10.0.0.1'' @ [TAB] @ ''name=web'' @ [TAB] @
        ''Running'' @ [NL]"
    by (simp add: podRow_def noConversion_def plainCollab_def webPod_def imagesOf_def
        podHostString_def)
  have 1: "printPod noConversion webPod (bufferWriter []) =
      Fprintf (bufferWriter []) (podRow noConversion webPod \<lparr>PodSpec.Containers = []\<rparr>)"
    using printPod_drops_conversion_error [of noConversion webPod "bufferWriter []"] conv by blast
  have 2: "printPod noConversion webPod brokenWriter =
      Fprintf brokenWriter (podRow noConversion webPod \<lparr>PodSpec.Containers = []\<rparr>)"
    using printPod_drops_conversion_error [of noConversion webPod brokenWriter] conv by blast
  have 3: "printPod partialConversion webPod brokenWriter =
      (brokenWriter, Some (ExternalError ''closed pipe''))"
    using printPod_drops_conversion_error [of partialConversion webPod brokenWriter]
    by (simp add: Fprintf_brokenWriter)
  show ?thesis
    using conv 3 by (simp add: 1 2 row Fprintf_bufferWriter Fprintf_brokenWriter)
qed

section \<open>Lists\<close>

text \<open>
  Any loop of the shape of the five list-form render functions renders the items in order
  and stops at the first error.
\<close>

lemma range_all_ok:
  assumes nil: "\<And>w. loop [] w = (w, None)"
    and cons: "\<And>x xs w. loop (x # xs) w =
        (case f x w of (w', Some err) \<Rightarrow> (w', Some err) | (w', None) \<Rightarrow> loop xs w')"
  shows "all_ok f w xs \<Longrightarrow> loop xs w = (rendered f w xs, None)"
proof (induction xs arbitrary: w)
  case Nil
  then show ?case by (simp add: nil rendered_def)
next
  case (Cons x xs)
  from Cons.prems have ok: "snd (f x w) = None" and rest: "all_ok f (fst (f x w)) xs"
    by simp_all
  obtain w' where fx: "f x w = (w', None)"
    using ok by (cases "f x w") auto
  from Cons.IH [OF rest] fx show ?case
    by (simp add: cons rendered_def)
qed

lemma range_first_error:
  assumes nil: "\<And>w. loop [] w = (w, None)"
    and cons: "\<And>x xs w. loop (x # xs) w =
        (case f x w of (w', Some err) \<Rightarrow> (w', Some err) | (w', None) \<Rightarrow> loop xs w')"
  shows "all_ok f w pre \<Longrightarrow> snd (f x (rendered f w pre)) = Some err \<Longrightarrow>
     loop (pre @ x # post) w = (fst (f x (rendered f w pre)), Some err)"
proof (induction pre arbitrary: w)
  case Nil
  then show ?case
    by (cases "f x w") (simp add: cons rendered_def)
next
  case (Cons y pre)
  from Cons.prems have ok: "snd (f y w) = None" and rest: "all_ok f (fst (f y w)) pre"
    by simp_all
  obtain w' where fy: "f y w = (w', None)"
    using ok by (cases "f y w") auto
  have "snd (f x (rendered f w' pre)) = Some err"
    using Cons.prems(2) fy by (simp add: rendered_def)
  from Cons.IH [OF _ this] rest fy show ?case
    by (simp add: cons rendered_def)
qed

lemma delegatesI:
  assumes nil: "\<And>w. loop [] w = (w, None)"
    and cons: "\<And>x xs w. loop (x # xs) w =
        (case f x w of (w', Some err) \<Rightarrow> (w', Some err) | (w', None) \<Rightarrow> loop xs w')"
    and list: "\<And>list w. printList list w = loop (items list) w"
  shows "delegates printList items f"
  unfolding delegates_def
  using range_all_ok [of loop f, OF nil cons] range_first_error [of loop f, OF nil cons]
  by (simp add: list)

lemma printMinion_quotaWriter:
  "printMinion m (quotaWriter n\<lparr>st := (k, s)\<rparr>) =
     (if k = 0 then (quotaWriter n\<lparr>st := (k, s)\<rparr>, Some (ExternalError ''quota exceeded''))
      else (quotaWriter n\<lparr>st := (k - 1, s @ ObjectMeta.Name m @ [NL])\<rparr>, None))"
  by (simp add: printMinion_def Fprintf_def quotaWriter_def)

text \<open>
  C7. Each of the five list-form default render functions (pods, replication controllers,
  services, minions, events) runs the singular render function once on each item, in
  order, and returns nil when every item renders without error; when an item's rendering
  returns an error, the items before it and the item itself have been rendered, none of
  the items after it is, and that first error is returned.
\<close>

theorem list_render_functions_delegate:
  "delegates (printPodList C) PodList.Items (printPod C) \<and>
   delegates (printReplicationControllerList C) ReplicationControllerList.Items
     (printReplicationController C) \<and>
   delegates (printServiceList C) ServiceList.Items (printService C) \<and>
   delegates printMinionList MinionList.Items printMinion \<and>
   delegates printEventList EventList.Items printEvent"
proof (intro conjI)
  show "delegates (printPodList C) PodList.Items (printPod C)"
    by (rule delegatesI [of "printPodList_range C"]) (simp_all add: printPodList_def)
  show "delegates (printReplicationControllerList C) ReplicationControllerList.Items
     (printReplicationController C)"
    by (rule delegatesI [of "printReplicationControllerList_range C"])
      (simp_all add: printReplicationControllerList_def)
  show "delegates (printServiceList C) ServiceList.Items (printService C)"
    by (rule delegatesI [of "printServiceList_range C"]) (simp_all add: printServiceList_def)
  show "delegates printMinionList MinionList.Items printMinion"
    by (rule delegatesI [of printMinionList_range]) (simp_all add: printMinionList_def)
  show "delegates printEventList EventList.Items printEvent"
    by (rule delegatesI [of printEventList_range]) (simp_all add: printEventList_def)
qed

theorem list_render_functions_delegate_witness:
  "all_ok (printService plainCollab) (bufferWriter []) [frontend, redismaster] \<and>
   printServiceList plainCollab \<lparr>ServiceList.Items = [frontend, redismaster]\<rparr> (bufferWriter []) =
     (bufferWriter (serviceRow plainCollab frontend @ serviceRow plainCollab redismaster), None) \<and>
   all_ok printMinion (quotaWriter 1) [minion ''a''] \<and>
   snd (printMinion (minion ''b'') (rendered printMinion (quotaWriter 1) [minion ''a''])) =
     Some (ExternalError ''quota exceeded'') \<and>
   printMinionList \<lparr>MinionList.Items = [minion ''a'', minion ''b'', minion ''c'']\<rparr> (quotaWriter 1) =
     (quotaWriter 1\<lparr>st := (0, ''a'' @ [NL])\<rparr>, Some (ExternalError ''quota exceeded''))"
proof -
  have q: "quotaWriter n = quotaWriter n\<lparr>st := (n, [])\<rparr>" for n
    by (simp add: quotaWriter_def)
  have ok1: "all_ok (printService plainCollab) (bufferWriter []) [frontend, redismaster]"
    by (simp add: printService_def Fprintf_bufferWriter)
  have r1: "rendered (printService plainCollab) (bufferWriter []) [frontend, redismaster] =
      bufferWriter (serviceRow plainCollab frontend @ serviceRow plainCollab redismaster)"
    by (simp add: rendered_def printService_def Fprintf_bufferWriter)
  have ok2: "all_ok printMinion (quotaWriter 1) [minion ''a'']"
    by (subst q) (simp add: printMinion_quotaWriter)
  have r2: "rendered printMinion (quotaWriter 1) [minion ''a''] = quotaWriter 1\<lparr>st := (0, ''a'' @ [NL])\<rparr>"
    by (subst q) (simp add: rendered_def printMinion_quotaWriter minion_def)
  have e2: "printMinion (minion ''b'') (quotaWriter 1\<lparr>st := (0, ''a'' @ [NL])\<rparr>) =
      (quotaWriter 1\<lparr>st := (0, ''a'' @ [NL])\<rparr>, Some (ExternalError ''quota exceeded''))"
    by (simp add: printMinion_quotaWriter)
  have s: "printServiceList plainCollab \<lparr>ServiceList.Items = [frontend, redismaster]\<rparr>
      (bufferWriter []) =
      (rendered (printService plainCollab) (bufferWriter []) [frontend, redismaster], None)"
    using list_render_functions_delegate [of plainCollab] ok1 unfolding delegates_def
    by (metis ServiceList.select_convs(1))
  have m: "printMinionList \<lparr>MinionList.Items = [minion ''a'', minion ''b'', minion ''c'']\<rparr>
      (quotaWriter 1) =
      (fst (printMinion (minion ''b'') (rendered printMinion (quotaWriter 1) [minion ''a''])),
       Some (ExternalError ''quota exceeded''))"
  proof -
    have d: "delegates printMinionList MinionList.Items
        (printMinion :: Minion \<Rightarrow> (nat \<times> string) Writer \<Rightarrow> _)"
      using list_render_functions_delegate [of plainCollab] by blast
    have items: "MinionList.Items \<lparr>MinionList.Items = [minion ''a'', minion ''b'', minion ''c'']\<rparr> =
        [minion ''a''] @ minion ''b'' # [minion ''c'']"
      by simp
    have bad: "snd (printMinion (minion ''b'') (rendered printMinion (quotaWriter 1) [minion ''a''])) =
        Some (ExternalError ''quota exceeded'')"
      by (simp only: r2 e2 snd_conv)
    from d [unfolded delegates_def, THEN conjunct2, rule_format, OF conjI [OF items conjI [OF ok2 bad]]]
    show ?thesis .
  qed
  have bad: "snd (printMinion (minion ''b'') (rendered printMinion (quotaWriter 1) [minion ''a''])) =
      Some (ExternalError ''quota exceeded'')"
    by (simp only: r2 e2 snd_conv)
  have m': "printMinionList \<lparr>MinionList.Items = [minion ''a'', minion ''b'', minion ''c'']\<rparr>
      (quotaWriter 1) =
      (quotaWriter 1\<lparr>st := (0, ''a'' @ [NL])\<rparr>, Some (ExternalError ''quota exceeded''))"
    by (simp only: m r2 e2 fst_conv)
  have s': "printServiceList plainCollab \<lparr>ServiceList.Items = [frontend, redismaster]\<rparr>
      (bufferWriter []) =
      (bufferWriter (serviceRow plainCollab frontend @ serviceRow plainCollab redismaster), None)"
    by (simp only: s r1)
  from ok1 s' ok2 bad m' show ?thesis
    by (intro conjI)
qed

section \<open>A service list, then a service\<close>








end
